theory Spec2Isabelle
  imports Main "HOL-Library.List_Lexorder" "HOL-Library.Char_ord"
begin

section \<open>Input assertions of tt (\<^verbatim>\<open>tt/utils/assertions.py\<close>)\<close>

text \<open>
  The module holds two functions. Both return nothing on success and raise one of four
  exception classes, each constructed from a message string. A raise is modelled as the
  left injection of a sum, a normal return as \<open>Inr ()\<close>.
\<close>

subsection \<open>Exceptions\<close>

text \<open>
  The four classes imported from \<^verbatim>\<open>tt.errors\<close>; the argument is the message each one
  is raised with.
\<close>

datatype error =
    DuplicateSymbolError string
  | ExtraSymbolError string
  | InvalidBooleanValueError string
  | MissingSymbolError string

subsection \<open>Python values and strings\<close>

text \<open>
  The values of the input dict are arbitrary Python objects; the docstrings use
  \<^verbatim>\<open>True\<close>, \<^verbatim>\<open>False\<close>, \<^verbatim>\<open>1\<close>, \<^verbatim>\<open>0\<close> and the string \<^verbatim>\<open>'brian'\<close>. The model has Python's
  \<^verbatim>\<open>bool\<close>, \<^verbatim>\<open>int\<close> (unbounded) and \<^verbatim>\<open>str\<close>.
\<close>

datatype pyval = PBool bool | PInt int | PStr string

text \<open>
  Python's \<^verbatim>\<open>==\<close>: \<^verbatim>\<open>bool\<close> is a subclass of \<^verbatim>\<open>int\<close>, so \<^verbatim>\<open>True == 1\<close> and
  \<^verbatim>\<open>False == 0\<close>; a string never equals a number.
\<close>

fun py_num :: "pyval \<Rightarrow> int option" where
  "py_num (PBool b) = Some (if b then 1 else 0)"
| "py_num (PInt i) = Some i"
| "py_num (PStr s) = None"

fun py_eq :: "pyval \<Rightarrow> pyval \<Rightarrow> bool" where
  "py_eq (PStr s) (PStr t) = (s = t)"
| "py_eq (PStr s) (PBool b) = False"
| "py_eq (PStr s) (PInt i) = False"
| "py_eq (PBool b) (PStr t) = False"
| "py_eq (PInt i) (PStr t) = False"
| "py_eq (PBool a) (PBool b) = (py_num (PBool a) = py_num (PBool b))"
| "py_eq (PBool a) (PInt j) = (py_num (PBool a) = py_num (PInt j))"
| "py_eq (PInt i) (PBool b) = (py_num (PInt i) = py_num (PBool b))"
| "py_eq (PInt i) (PInt j) = (py_num (PInt i) = py_num (PInt j))"

text \<open>\<^verbatim>\<open>v in container\<close>: some element of the container equals \<open>v\<close>.\<close>

fun py_in :: "pyval \<Rightarrow> pyval list \<Rightarrow> bool" where
  "py_in v [] = False"
| "py_in v (x # xs) = (py_eq x v \<or> py_in v xs)"

text \<open>
  Modelled from the spec: the constant \<^verbatim>\<open>BOOLEAN_VALUES\<close> of \<^verbatim>\<open>tt.definitions\<close> is imported
  by the module and its definition is not part of the sources at hand. The spec and the
  docstring of \<^verbatim>\<open>assert_all_valid_keys\<close> give its members as \<^verbatim>\<open>1\<close>, \<^verbatim>\<open>0\<close>, \<^verbatim>\<open>True\<close> and
  \<^verbatim>\<open>False\<close>.
\<close>

definition BOOLEAN_VALUES :: "pyval list" where
  "BOOLEAN_VALUES = [PInt 1, PInt 0, PBool True, PBool False]"

text \<open>Decimal digits of a natural number, and \<^verbatim>\<open>str(v)\<close> as \<^verbatim>\<open>'{}'.format(v)\<close> inserts it.\<close>

function str_of_nat :: "nat \<Rightarrow> string" where
  "str_of_nat n =
     (if n < 10 then [char_of (48 + n)]
      else str_of_nat (n div 10) @ [char_of (48 + n mod 10)])"
  by pat_completeness auto
termination
  by (relation "measure (\<lambda>n. n)") auto

definition str_of_int :: "int \<Rightarrow> string" where
  "str_of_int i = (if i < 0 then CHR ''-'' # str_of_nat (nat (- i)) else str_of_nat (nat i))"

fun py_str :: "pyval \<Rightarrow> string" where
  "py_str (PBool b) = (if b then ''True'' else ''False'')"
| "py_str (PInt i) = str_of_int i"
| "py_str (PStr s) = s"

text \<open>\<^verbatim>\<open>'"{}"'.format(s)\<close>: the text between two double quotes (character 0x22).\<close>

definition quoted :: "string \<Rightarrow> string" where
  "quoted s = CHR 0x22 # s @ [CHR 0x22]"

text \<open>\<^verbatim>\<open>sep.join(parts)\<close>.\<close>

fun str_join :: "string \<Rightarrow> string list \<Rightarrow> string" where
  "str_join sep [] = []"
| "str_join sep [p] = p"
| "str_join sep (p # q # ps) = p @ sep @ str_join sep (q # ps)"

subsection \<open>\<^verbatim>\<open>assert_iterable_contains_all_expr_symbols\<close>\<close>

text \<open>
  \<open>iter_of_strs\<close> is the sequence of items the iterable yields, which \<^verbatim>\<open>list(...)\<close>
  materialises; \<open>reference_set\<close> is a Python set of strings. The two messages are built
  by iterating over a set, and Python fixes no order for that: \<open>set_iter\<close> stands for the
  order in which the interpreter yields the elements of a set.
\<close>

definition assert_iterable_contains_all_expr_symbols ::
  "(string set \<Rightarrow> string list) \<Rightarrow> string list \<Rightarrow> string set \<Rightarrow> error + unit" where
  "assert_iterable_contains_all_expr_symbols set_iter iter_of_strs reference_set =
     (let passed_symbol_list = iter_of_strs;
          passed_symbol_set = set passed_symbol_list
      in if length passed_symbol_list \<noteq> card passed_symbol_set
         then Inl (DuplicateSymbolError ''Received duplicate symbols'')
         else
           let passed_excess_set = passed_symbol_set - reference_set;
               reference_excess_set = reference_set - passed_symbol_set
           in if reference_excess_set \<noteq> {}
              then Inl (MissingSymbolError
                     (''Did not receive value for the following symbols: '' @
                      str_join '', '' (map quoted (set_iter reference_excess_set))))
              else if passed_excess_set \<noteq> {}
              then Inl (ExtraSymbolError
                     (''Received unexpected symbols: '' @
                      str_join '', '' (map quoted (set_iter passed_excess_set))))
              else Inr ())"

subsection \<open>\<^verbatim>\<open>assert_all_valid_keys\<close>\<close>

text \<open>
  \<open>symbol_input_dict.items()\<close> is the list of the dict's pairs in iteration order; the
  \<^verbatim>\<open>for\<close> loop is the recursion over that list, and a \<^verbatim>\<open>raise\<close> leaves it.
\<close>

fun assert_all_valid_keys :: "(string \<times> pyval) list \<Rightarrow> string set \<Rightarrow> error + unit" where
  "assert_all_valid_keys [] symbol_set = Inr ()"
| "assert_all_valid_keys ((k, v) # items) symbol_set =
     (if k \<notin> symbol_set
      then Inl (ExtraSymbolError (quoted k @ '' is not a symbol in this expression''))
      else if \<not> py_in v BOOLEAN_VALUES
      then Inl (InvalidBooleanValueError
             (quoted (py_str v) @ '' passed as value for '' @ quoted k @
              '' is not a valid Boolean value''))
      else assert_all_valid_keys items symbol_set)"

subsection \<open>The caller's objects\<close>

text \<open>
  Python passes references: both functions receive the caller's own objects. To say what a
  call does to them, the objects live in a store, a list indexed by address. An object is
  a set of strings, a sequence (list or tuple), a single-pass iterator with the items it
  has not yielded yet, or a dict. Objects that a call creates for its local variables are
  unreachable once it returns and are left out of the store.
\<close>

datatype pyobj =
    PySet "string set"
  | PySeq "string list"
  | PyIter "string list"
  | PyDict "(string \<times> pyval) list"

type_synonym store = "pyobj list"

text \<open>
  \<^verbatim>\<open>list(obj)\<close>: the items the object yields and the object afterwards. Only a single-pass
  iterator changes: it is exhausted (the docstring's note that the function consumes
  \<open>iter_of_strs\<close>). Iterating a dict yields its keys.
\<close>

fun iterate :: "(string set \<Rightarrow> string list) \<Rightarrow> pyobj \<Rightarrow> string list \<times> pyobj" where
  "iterate set_iter (PySet S) = (set_iter S, PySet S)"
| "iterate set_iter (PySeq xs) = (xs, PySeq xs)"
| "iterate set_iter (PyIter xs) = (xs, PyIter [])"
| "iterate set_iter (PyDict d) = (map fst d, PyDict d)"

text \<open>
  The two functions on addresses. \<^verbatim>\<open>list(iter_of_strs)\<close> is the only statement of either
  function that can change an object of the caller; \<^verbatim>\<open>set(...)\<close> and the two set differences
  build new sets, \<^verbatim>\<open>.items()\<close> and \<^verbatim>\<open>in\<close> only read. The result is \<open>None\<close> for a dangling
  address or an argument that is not of the documented type (\<open>reference_set\<close> and
  \<open>symbol_set\<close> a set, \<open>symbol_input_dict\<close> a dict).
\<close>

definition assert_iterable_contains_all_expr_symbols_store ::
  "(string set \<Rightarrow> string list) \<Rightarrow> store \<Rightarrow> nat \<Rightarrow> nat \<Rightarrow> ((error + unit) \<times> store) option" where
  "assert_iterable_contains_all_expr_symbols_store set_iter h iter_of_strs reference_set =
     (if iter_of_strs < length h \<and> reference_set < length h
      then
        let (passed_symbol_list, consumed) = iterate set_iter (h ! iter_of_strs);
            h' = h[iter_of_strs := consumed]
        in case h' ! reference_set of
             PySet R \<Rightarrow>
               Some (assert_iterable_contains_all_expr_symbols set_iter passed_symbol_list R, h')
           | PySeq xs \<Rightarrow> None
           | PyIter xs \<Rightarrow> None
           | PyDict d \<Rightarrow> None
      else None)"

definition assert_all_valid_keys_store ::
  "store \<Rightarrow> nat \<Rightarrow> nat \<Rightarrow> ((error + unit) \<times> store) option" where
  "assert_all_valid_keys_store h symbol_input_dict symbol_set =
     (if symbol_input_dict < length h \<and> symbol_set < length h
      then case (h ! symbol_input_dict, h ! symbol_set) of
             (PyDict items, PySet S) \<Rightarrow> Some (assert_all_valid_keys items S, h)
           | _ \<Rightarrow> None
      else None)"

subsection \<open>What a message has to contain\<close>

text \<open>
  The text that Python's \<^verbatim>\<open>str\<close> gives for a value, said without the functions above: a
  string is its own text, a bool is \<^verbatim>\<open>True\<close> or \<^verbatim>\<open>False\<close>, and an integer is its decimal
  numeral, with a minus sign in front when it is negative. A decimal numeral of \<open>n\<close> is a
  non-empty text of digits, without a leading zero unless it is \<^verbatim>\<open>0\<close>, whose value read in
  base ten is \<open>n\<close>.
\<close>

definition decimal_digits :: "char set" where
  "decimal_digits = set ''0123456789''"

definition decimal_of :: "string \<Rightarrow> nat \<Rightarrow> bool" where
  "decimal_of ds n \<longleftrightarrow>
     ds \<noteq> [] \<and> set ds \<subseteq> decimal_digits \<and> (ds = ''0'' \<or> hd ds \<noteq> CHR ''0'') \<and>
     foldl (\<lambda>a c. 10 * a + (of_char c - 48)) 0 ds = n"

fun shows_value :: "string \<Rightarrow> pyval \<Rightarrow> bool" where
  "shows_value txt (PStr s) = (txt = s)"
| "shows_value txt (PBool b) = (txt = (if b then ''True'' else ''False''))"
| "shows_value txt (PInt i) =
     (if i < 0 then txt \<noteq> [] \<and> hd txt = CHR ''-'' \<and> decimal_of (tl txt) (nat (- i))
      else decimal_of txt (nat i))"

section \<open>Properties\<close>

text \<open>
  In the examples below the interpreter's set iteration order is taken to be the sorted
  one, \<open>sorted_list_of_set\<close>; the theorems hold for every order.
\<close>

subsection \<open>Auxiliary facts\<close>

lemma duplicates_iff_length: "length xs \<noteq> card (set xs) \<longleftrightarrow> \<not> distinct xs"
proof
  assume "length xs \<noteq> card (set xs)"
  then show "\<not> distinct xs" using distinct_card [of xs] by auto
next
  assume "\<not> distinct xs"
  then show "length xs \<noteq> card (set xs)" using card_distinct [of xs] by auto
qed

text \<open>Membership in \<^verbatim>\<open>BOOLEAN_VALUES\<close> singles out exactly the four representations.\<close>

lemma BOOLEAN_VALUES_members:
  "py_in v BOOLEAN_VALUES \<longleftrightarrow> v \<in> {PInt 1, PInt 0, PBool True, PBool False}"
  by (cases v) (auto simp: BOOLEAN_VALUES_def)

text \<open>The loop passes over pairs that pass both checks.\<close>

lemma valid_prefix_skipped:
  "\<forall>(k, v) \<in> set pre. k \<in> R \<and> py_in v BOOLEAN_VALUES \<Longrightarrow>
   assert_all_valid_keys (pre @ rest) R = assert_all_valid_keys rest R"
  by (induction pre) auto

text \<open>Consuming the iterable leaves a set where it is, also when both arguments alias.\<close>

lemma iterate_keeps_set:
  assumes "r < length h" and "h ! r = PySet R" and "a < length h"
  shows "(h[a := snd (iterate set_iter (h ! a))]) ! r = PySet R"
proof (cases "a = r")
  case True
  with assms show ?thesis by simp
next
  case False
  with assms show ?thesis by simp
qed

text \<open>The decimal numeral that \<open>str_of_nat\<close> writes.\<close>

lemma digit_chars:
  "\<forall>n \<in> set [0..<10].
     char_of (48 + n) \<in> decimal_digits \<and> (of_char (char_of (48 + n)) :: nat) - 48 = n \<and>
     (char_of (48 + n) = CHR ''0'' \<longleftrightarrow> n = 0)"
  by code_simp

lemma digit_char:
  assumes "n < 10"
  shows "char_of (48 + n) \<in> decimal_digits"
    and "(of_char (char_of (48 + n)) :: nat) - 48 = n"
    and "char_of (48 + n) = CHR ''0'' \<longleftrightarrow> n = 0"
proof -
  from assms have "n \<in> set [0..<10]" by simp
  with digit_chars
  have "char_of (48 + n) \<in> decimal_digits \<and> (of_char (char_of (48 + n)) :: nat) - 48 = n \<and>
     (char_of (48 + n) = CHR ''0'' \<longleftrightarrow> n = 0)" by (rule bspec)
  then show "char_of (48 + n) \<in> decimal_digits"
    and "(of_char (char_of (48 + n)) :: nat) - 48 = n"
    and "char_of (48 + n) = CHR ''0'' \<longleftrightarrow> n = 0" by blast+
qed

lemma str_of_nat_small: "n < 10 \<Longrightarrow> str_of_nat n = [char_of (48 + n)]"
  by (subst str_of_nat.simps) simp

lemma str_of_nat_large:
  "\<not> n < 10 \<Longrightarrow> str_of_nat n = str_of_nat (n div 10) @ [char_of (48 + n mod 10)]"
  by (subst str_of_nat.simps) simp

lemma str_of_nat_nonempty: "str_of_nat n \<noteq> []"
  by (cases "n < 10") (simp_all add: str_of_nat_small str_of_nat_large)

lemma str_of_nat_value: "foldl (\<lambda>a c. 10 * a + (of_char c - 48)) 0 (str_of_nat n) = n"
proof (induction n rule: str_of_nat.induct)
  case (1 n)
  show ?case
  proof (cases "n < 10")
    case True
    with digit_char(2) [of n] show ?thesis by (simp add: str_of_nat_small)
  next
    case False
    have "n mod 10 < 10" by simp
    from digit_char(2) [OF this] 1 [OF False] show ?thesis
      by (simp add: str_of_nat_large [OF False])
  qed
qed

lemma str_of_nat_digits: "set (str_of_nat n) \<subseteq> decimal_digits"
proof (induction n rule: str_of_nat.induct)
  case (1 n)
  show ?case
  proof (cases "n < 10")
    case True
    define c where "c = char_of (48 + n)"
    have "set (str_of_nat n) = {c}"
      unfolding c_def by (simp only: str_of_nat_small [OF True] list.set)
    moreover have "c \<in> decimal_digits"
      unfolding c_def by (rule digit_char(1) [OF True])
    ultimately show ?thesis by simp
  next
    case False
    define c where "c = char_of (48 + n mod 10)"
    have "n mod 10 < 10" by simp
    then have "c \<in> decimal_digits"
      unfolding c_def by (rule digit_char(1))
    moreover have "set (str_of_nat n) = set (str_of_nat (n div 10)) \<union> {c}"
      unfolding c_def by (simp only: str_of_nat_large [OF False] set_append list.set)
    ultimately show ?thesis using 1 [OF False] by simp
  qed
qed

lemma str_of_nat_leading: "str_of_nat n = ''0'' \<or> hd (str_of_nat n) \<noteq> CHR ''0''"
proof (induction n rule: str_of_nat.induct)
  case (1 n)
  show ?case
  proof (cases "n < 10")
    case True
    note small = str_of_nat_small [OF True]
    show ?thesis
    proof (cases "n = 0")
      case True
      have "char_of (48 + (0::nat)) = CHR ''0''" by code_simp
      with True small have "str_of_nat n = ''0''" by simp
      then show ?thesis by (rule disjI1)
    next
      case False
      with digit_char(3) [OF \<open>n < 10\<close>] have "char_of (48 + n) \<noteq> CHR ''0''" by blast
      moreover have "hd (str_of_nat n) = char_of (48 + n)" by (simp only: small list.sel)
      ultimately have "hd (str_of_nat n) \<noteq> CHR ''0''" by (simp only: simp_thms)
      then show ?thesis by (rule disjI2)
    qed
  next
    case False
    note large = str_of_nat_large [OF False]
    from False have nz: "n div 10 \<noteq> 0" by simp
    have v: "foldl (\<lambda>a c. 10 * a + (of_char c - 48)) 0 (str_of_nat (n div 10)) = n div 10"
      by (rule str_of_nat_value)
    have z0: "foldl (\<lambda>a c. 10 * a + (of_char c - 48)) 0 ''0'' = (0::nat)" by code_simp
    have "str_of_nat (n div 10) \<noteq> ''0''"
    proof
      assume "str_of_nat (n div 10) = ''0''"
      with v have "foldl (\<lambda>a c. 10 * a + (of_char c - 48)) 0 ''0'' = n div 10" by (simp only:)
      with z0 nz show False by simp
    qed
    with 1 [OF False] have "hd (str_of_nat (n div 10)) \<noteq> CHR ''0''" by blast
    moreover have "hd (str_of_nat (n div 10) @ [char_of (48 + n mod 10)]) =
                     hd (str_of_nat (n div 10))"
      by (rule hd_append2 [OF str_of_nat_nonempty])
    then have "hd (str_of_nat n) = hd (str_of_nat (n div 10))" by (simp only: large)
    ultimately have "hd (str_of_nat n) \<noteq> CHR ''0''" by (simp only: simp_thms)
    then show ?thesis by (rule disjI2)
  qed
qed

lemma str_of_nat_decimal: "decimal_of (str_of_nat n) n"
  unfolding decimal_of_def
  using str_of_nat_nonempty [of n] str_of_nat_digits [of n] str_of_nat_leading [of n]
    str_of_nat_value [of n]
  by blast

text \<open>\<open>py_str\<close> gives the text of a value.\<close>

lemma py_str_shows_value: "shows_value (py_str v) v"
proof (cases v)
  case (PBool b)
  then show ?thesis by simp
next
  case (PStr s)
  then show ?thesis by simp
next
  case (PInt i)
  show ?thesis
  proof (cases "i < 0")
    case True
    then have "py_str v = CHR ''-'' # str_of_nat (nat (- i))"
      using PInt by (simp only: py_str.simps str_of_int_def if_True)
    moreover have "decimal_of (str_of_nat (nat (- i))) (nat (- i))"
      by (rule str_of_nat_decimal)
    ultimately show ?thesis
      using PInt True by (simp only: shows_value.simps if_True list.sel) simp
  next
    case False
    then have "py_str v = str_of_nat (nat i)"
      using PInt by (simp only: py_str.simps str_of_int_def if_False)
    moreover have "decimal_of (str_of_nat (nat i)) (nat i)"
      by (rule str_of_nat_decimal)
    ultimately show ?thesis
      using PInt False by (simp only: shows_value.simps if_False)
  qed
qed

text \<open>Quoting and joining at least one name, character by character.\<close>

lemma str_join_quoted:
  "str_join sep (map quoted (n # ns)) =
     CHR 0x22 # n @ CHR 0x22 # concat (map (\<lambda>s. sep @ CHR 0x22 # s @ [CHR 0x22]) ns)"
  by (induction ns arbitrary: n) (simp_all add: quoted_def)

subsection \<open>The symbol-set check\<close>

text \<open>
  C1. For a reference set \<open>R\<close> and items \<open>C\<close> without duplicates,
  \<^verbatim>\<open>assert_iterable_contains_all_expr_symbols\<close> returns normally if and only if the set of
  the items equals \<open>R\<close>.
\<close>

theorem reconciler_succeeds_iff:
  "distinct C \<Longrightarrow>
   assert_iterable_contains_all_expr_symbols set_iter C R = Inr () \<longleftrightarrow> set C = R"
  by (auto simp: assert_iterable_contains_all_expr_symbols_def Let_def duplicates_iff_length)

theorem reconciler_succeeds_iff_witness:
  "distinct [''A'', ''B'', ''C''] \<and>
   set [''A'', ''B'', ''C''] = {''A'', ''B'', ''C''} \<and>
   assert_iterable_contains_all_expr_symbols sorted_list_of_set
     [''A'', ''B'', ''C''] {''A'', ''B'', ''C''} = Inr ()"
proof -
  have d: "distinct [''A'', ''B'', ''C'']" by simp
  have s: "set [''A'', ''B'', ''C''] = {''A'', ''B'', ''C''}" by simp
  from reconciler_succeeds_iff [OF d, of sorted_list_of_set "{''A'', ''B'', ''C''}"] d s
  show ?thesis by blast
qed

text \<open>
  C3. Whenever some item occurs more than once, the function raises
  \<^verbatim>\<open>DuplicateSymbolError\<close>, whatever the reference set is: equal to the set of the items,
  larger or smaller. The duplicate check comes before both mismatch checks.
\<close>

theorem duplicates_raise_DuplicateSymbolError:
  "\<not> distinct C \<Longrightarrow>
   assert_iterable_contains_all_expr_symbols set_iter C R =
     Inl (DuplicateSymbolError ''Received duplicate symbols'')"
  by (simp add: assert_iterable_contains_all_expr_symbols_def Let_def duplicates_iff_length)

theorem duplicates_raise_DuplicateSymbolError_witness:
  "\<not> distinct [''A'', ''A'', ''B''] \<and>
   assert_iterable_contains_all_expr_symbols sorted_list_of_set
     [''A'', ''A'', ''B''] {''A'', ''B''} =
     Inl (DuplicateSymbolError ''Received duplicate symbols'') \<and>
   assert_iterable_contains_all_expr_symbols sorted_list_of_set
     [''A'', ''A'', ''B''] {''A'', ''B'', ''C''} =
     Inl (DuplicateSymbolError ''Received duplicate symbols'') \<and>
   assert_iterable_contains_all_expr_symbols sorted_list_of_set
     [''A'', ''A'', ''B''] {''A''} =
     Inl (DuplicateSymbolError ''Received duplicate symbols'')"
proof -
  have d: "\<not> distinct [''A'', ''A'', ''B'']" by simp
  from d duplicates_raise_DuplicateSymbolError [OF d]
  show ?thesis by blast
qed

text \<open>
  C4. When the items have no duplicates and both differences are non-empty (some symbol of
  the reference set is not among the items, and some item is not in the reference set),
  the function raises \<^verbatim>\<open>MissingSymbolError\<close>, built from the missing symbols, and not
  \<^verbatim>\<open>ExtraSymbolError\<close>.
\<close>

theorem missing_reported_before_extra:
  assumes "distinct C" and "R - set C \<noteq> {}" and "set C - R \<noteq> {}"
  shows "assert_iterable_contains_all_expr_symbols set_iter C R =
           Inl (MissingSymbolError
             (''Did not receive value for the following symbols: '' @
              str_join '', '' (map quoted (set_iter (R - set C)))))
         \<and> (\<forall>msg. assert_iterable_contains_all_expr_symbols set_iter C R \<noteq>
               Inl (ExtraSymbolError msg))"
  using assms
  by (simp add: assert_iterable_contains_all_expr_symbols_def Let_def duplicates_iff_length)

theorem missing_reported_before_extra_witness:
  "distinct [''A'', ''D''] \<and> {''A'', ''B''} - set [''A'', ''D''] \<noteq> {} \<and>
   set [''A'', ''D''] - {''A'', ''B''} \<noteq> {} \<and>
   assert_iterable_contains_all_expr_symbols sorted_list_of_set [''A'', ''D''] {''A'', ''B''} =
     Inl (MissingSymbolError
       (''Did not receive value for the following symbols: '' @ quoted ''B''))"
proof -
  have d: "distinct [''A'', ''D'']" by simp
  have m: "{''A'', ''B''} - set [''A'', ''D''] \<noteq> {}" by code_simp
  have e: "set [''A'', ''D''] - {''A'', ''B''} \<noteq> {}" by code_simp
  have n: "sorted_list_of_set ({''A'', ''B''} - set [''A'', ''D'']) = [''B'']" by code_simp
  from missing_reported_before_extra [OF d m e, of sorted_list_of_set]
  have "assert_iterable_contains_all_expr_symbols sorted_list_of_set [''A'', ''D''] {''A'', ''B''} =
     Inl (MissingSymbolError
       (''Did not receive value for the following symbols: '' @
        str_join '', '' (map quoted (sorted_list_of_set ({''A'', ''B''} - set [''A'', ''D''])))))"
    by blast
  then have "assert_iterable_contains_all_expr_symbols sorted_list_of_set [''A'', ''D''] {''A'', ''B''} =
     Inl (MissingSymbolError
       (''Did not receive value for the following symbols: '' @ quoted ''B''))"
    by (simp only: n list.map str_join.simps)
  with d m e show ?thesis by blast
qed

text \<open>
  C5. When the items have no duplicates and their set is a proper subset of the reference
  set, the function raises \<^verbatim>\<open>MissingSymbolError\<close>. The interpreter yields the missing
  symbols, the reference set minus the items, as a first one \<open>n\<close> and the rest \<open>ns\<close>,
  exactly those symbols and each once; the message is the fixed prefix, then \<open>n\<close> between
  double quotes, then for every symbol of \<open>ns\<close> a comma, a space and the symbol between
  double quotes.
\<close>

theorem proper_subset_raises_MissingSymbolError:
  assumes "distinct C" and "set C \<subset> R"
    and "set (set_iter (R - set C)) = R - set C" and "distinct (set_iter (R - set C))"
  shows "\<exists>n ns. set_iter (R - set C) = n # ns \<and> set (n # ns) = R - set C \<and>
           distinct (n # ns) \<and>
           assert_iterable_contains_all_expr_symbols set_iter C R =
             Inl (MissingSymbolError
               (''Did not receive value for the following symbols: '' @
                CHR 0x22 # n @ CHR 0x22 #
                concat (map (\<lambda>s. '', '' @ CHR 0x22 # s @ [CHR 0x22]) ns)))"
proof -
  from \<open>set C \<subset> R\<close> have ne: "R - set C \<noteq> {}" by blast
  with assms(3) have "set_iter (R - set C) \<noteq> []" by auto
  then obtain n ns where names: "set_iter (R - set C) = n # ns" by (cases "set_iter (R - set C)") auto
  from ne \<open>distinct C\<close>
  have "assert_iterable_contains_all_expr_symbols set_iter C R =
          Inl (MissingSymbolError
            (''Did not receive value for the following symbols: '' @
             str_join '', '' (map quoted (set_iter (R - set C)))))"
    by (simp add: assert_iterable_contains_all_expr_symbols_def Let_def duplicates_iff_length)
  then have "assert_iterable_contains_all_expr_symbols set_iter C R =
          Inl (MissingSymbolError
            (''Did not receive value for the following symbols: '' @
             CHR 0x22 # n @ CHR 0x22 #
             concat (map (\<lambda>s. '', '' @ CHR 0x22 # s @ [CHR 0x22]) ns)))"
    by (simp only: names str_join_quoted)
  with names assms(3,4) show ?thesis by metis
qed

theorem proper_subset_raises_MissingSymbolError_witness:
  "distinct [''A''] \<and> set [''A''] \<subset> {''A'', ''C'', ''B''} \<and>
   set (sorted_list_of_set ({''A'', ''C'', ''B''} - set [''A''])) =
     {''A'', ''C'', ''B''} - set [''A''] \<and>
   distinct (sorted_list_of_set ({''A'', ''C'', ''B''} - set [''A''])) \<and>
   assert_iterable_contains_all_expr_symbols sorted_list_of_set [''A''] {''A'', ''C'', ''B''} =
     Inl (MissingSymbolError
       (''Did not receive value for the following symbols: '' @
        [CHR 0x22, CHR ''B'', CHR 0x22, CHR '','', CHR '' '', CHR 0x22, CHR ''C'', CHR 0x22]))"
proof -
  have d: "distinct [''A'']" by simp
  have s: "set [''A''] \<subset> {''A'', ''C'', ''B''}" by code_simp
  have e: "set (sorted_list_of_set ({''A'', ''C'', ''B''} - set [''A''])) =
             {''A'', ''C'', ''B''} - set [''A'']"
    by code_simp
  have i: "distinct (sorted_list_of_set ({''A'', ''C'', ''B''} - set [''A'']))" by code_simp
  have o: "sorted_list_of_set ({''A'', ''C'', ''B''} - set [''A'']) = [''B'', ''C'']"
    by code_simp
  from proper_subset_raises_MissingSymbolError
         [where C = "[''A'']" and R = "{''A'', ''C'', ''B''}" and set_iter = sorted_list_of_set,
          OF d s e i]
  obtain n ns where
    "sorted_list_of_set ({''A'', ''C'', ''B''} - set [''A'']) = n # ns" and
    r: "assert_iterable_contains_all_expr_symbols sorted_list_of_set [''A''] {''A'', ''C'', ''B''} =
          Inl (MissingSymbolError
            (''Did not receive value for the following symbols: '' @
             CHR 0x22 # n @ CHR 0x22 #
             concat (map (\<lambda>s. '', '' @ CHR 0x22 # s @ [CHR 0x22]) ns)))"
    by blast
  with o have "n = ''B''" and "ns = [''C'']" by simp_all
  with r have
    "assert_iterable_contains_all_expr_symbols sorted_list_of_set [''A''] {''A'', ''C'', ''B''} =
       Inl (MissingSymbolError
         (''Did not receive value for the following symbols: '' @
          [CHR 0x22, CHR ''B'', CHR 0x22, CHR '','', CHR '' '', CHR 0x22, CHR ''C'', CHR 0x22]))"
    by simp
  with d s e i show ?thesis by blast
qed

text \<open>
  C6. When the items have no duplicates and their set is a proper superset of the
  reference set, the function raises \<^verbatim>\<open>ExtraSymbolError\<close>. The interpreter yields the
  extra symbols, the items minus the reference set, as a first one \<open>n\<close> and the rest \<open>ns\<close>,
  exactly those symbols and each once; the message is the fixed prefix followed by the
  names, quoted and joined as for \<^verbatim>\<open>MissingSymbolError\<close>.
\<close>

theorem proper_superset_raises_ExtraSymbolError:
  assumes "distinct C" and "R \<subset> set C"
    and "set (set_iter (set C - R)) = set C - R" and "distinct (set_iter (set C - R))"
  shows "\<exists>n ns. set_iter (set C - R) = n # ns \<and> set (n # ns) = set C - R \<and>
           distinct (n # ns) \<and>
           assert_iterable_contains_all_expr_symbols set_iter C R =
             Inl (ExtraSymbolError
               (''Received unexpected symbols: '' @
                CHR 0x22 # n @ CHR 0x22 #
                concat (map (\<lambda>s. '', '' @ CHR 0x22 # s @ [CHR 0x22]) ns)))"
proof -
  from \<open>R \<subset> set C\<close> have em: "R - set C = {}" and ne: "set C - R \<noteq> {}" by blast+
  from ne assms(3) have "set_iter (set C - R) \<noteq> []" by auto
  then obtain n ns where names: "set_iter (set C - R) = n # ns" by (cases "set_iter (set C - R)") auto
  from em ne \<open>distinct C\<close>
  have "assert_iterable_contains_all_expr_symbols set_iter C R =
          Inl (ExtraSymbolError
            (''Received unexpected symbols: '' @
             str_join '', '' (map quoted (set_iter (set C - R)))))"
    by (simp add: assert_iterable_contains_all_expr_symbols_def Let_def duplicates_iff_length)
  then have "assert_iterable_contains_all_expr_symbols set_iter C R =
          Inl (ExtraSymbolError
            (''Received unexpected symbols: '' @
             CHR 0x22 # n @ CHR 0x22 #
             concat (map (\<lambda>s. '', '' @ CHR 0x22 # s @ [CHR 0x22]) ns)))"
    by (simp only: names str_join_quoted)
  with names assms(3,4) show ?thesis by metis
qed

theorem proper_superset_raises_ExtraSymbolError_witness:
  "distinct [''A'', ''D'', ''B'', ''C''] \<and> {''A'', ''B''} \<subset> set [''A'', ''D'', ''B'', ''C''] \<and>
   set (sorted_list_of_set (set [''A'', ''D'', ''B'', ''C''] - {''A'', ''B''})) =
     set [''A'', ''D'', ''B'', ''C''] - {''A'', ''B''} \<and>
   distinct (sorted_list_of_set (set [''A'', ''D'', ''B'', ''C''] - {''A'', ''B''})) \<and>
   assert_iterable_contains_all_expr_symbols sorted_list_of_set
     [''A'', ''D'', ''B'', ''C''] {''A'', ''B''} =
     Inl (ExtraSymbolError
       (''Received unexpected symbols: '' @
        [CHR 0x22, CHR ''C'', CHR 0x22, CHR '','', CHR '' '', CHR 0x22, CHR ''D'', CHR 0x22]))"
proof -
  have d: "distinct [''A'', ''D'', ''B'', ''C'']" by simp
  have s: "{''A'', ''B''} \<subset> set [''A'', ''D'', ''B'', ''C'']" by code_simp
  have e: "set (sorted_list_of_set (set [''A'', ''D'', ''B'', ''C''] - {''A'', ''B''})) =
             set [''A'', ''D'', ''B'', ''C''] - {''A'', ''B''}"
    by code_simp
  have i: "distinct (sorted_list_of_set (set [''A'', ''D'', ''B'', ''C''] - {''A'', ''B''}))"
    by code_simp
  have o: "sorted_list_of_set (set [''A'', ''D'', ''B'', ''C''] - {''A'', ''B''}) = [''C'', ''D'']"
    by code_simp
  from proper_superset_raises_ExtraSymbolError
         [where C = "[''A'', ''D'', ''B'', ''C'']" and R = "{''A'', ''B''}"
            and set_iter = sorted_list_of_set, OF d s e i]
  obtain n ns where
    "sorted_list_of_set (set [''A'', ''D'', ''B'', ''C''] - {''A'', ''B''}) = n # ns" and
    r: "assert_iterable_contains_all_expr_symbols sorted_list_of_set
          [''A'', ''D'', ''B'', ''C''] {''A'', ''B''} =
          Inl (ExtraSymbolError
            (''Received unexpected symbols: '' @
             CHR 0x22 # n @ CHR 0x22 #
             concat (map (\<lambda>s. '', '' @ CHR 0x22 # s @ [CHR 0x22]) ns)))"
    by blast
  with o have "n = ''C''" and "ns = [''D'']" by simp_all
  with r have
    "assert_iterable_contains_all_expr_symbols sorted_list_of_set
       [''A'', ''D'', ''B'', ''C''] {''A'', ''B''} =
       Inl (ExtraSymbolError
         (''Received unexpected symbols: '' @
          [CHR 0x22, CHR ''C'', CHR 0x22, CHR '','', CHR '' '', CHR 0x22, CHR ''D'', CHR 0x22]))"
    by simp
  with d s e i show ?thesis by blast
qed

subsection \<open>The check of a dict of values\<close>

text \<open>
  C2. For a dict \<open>M\<close> and a symbol set \<open>R\<close>, \<^verbatim>\<open>assert_all_valid_keys\<close> returns normally if
  and only if every key of \<open>M\<close> is in \<open>R\<close> and every value of \<open>M\<close> is a member of
  \<^verbatim>\<open>BOOLEAN_VALUES\<close>, that is one of \<^verbatim>\<open>1\<close>, \<^verbatim>\<open>0\<close>, \<^verbatim>\<open>True\<close>, \<^verbatim>\<open>False\<close>.
\<close>

theorem valid_keys_succeeds_iff:
  "assert_all_valid_keys M R = Inr () \<longleftrightarrow>
   (\<forall>(k, v) \<in> set M. k \<in> R \<and> py_in v BOOLEAN_VALUES)"
  by (induction M R rule: assert_all_valid_keys.induct) auto

theorem valid_keys_succeeds_iff_witness:
  "''A'' \<in> {''A'', ''B'', ''C''} \<and> py_in (PBool True) BOOLEAN_VALUES \<and>
   ''B'' \<in> {''A'', ''B'', ''C''} \<and> py_in (PInt 0) BOOLEAN_VALUES \<and>
   assert_all_valid_keys [(''A'', PBool True), (''B'', PInt 0)] {''A'', ''B'', ''C''} = Inr () \<and>
   \<not> py_in (PInt 2) BOOLEAN_VALUES \<and>
   assert_all_valid_keys [(''A'', PBool True), (''B'', PInt 2)] {''A'', ''B'', ''C''} \<noteq> Inr ()"
proof -
  have m: "''A'' \<in> {''A'', ''B'', ''C''} \<and> py_in (PBool True) BOOLEAN_VALUES \<and>
           ''B'' \<in> {''A'', ''B'', ''C''} \<and> py_in (PInt 0) BOOLEAN_VALUES \<and>
           \<not> py_in (PInt 2) BOOLEAN_VALUES"
    by (simp add: BOOLEAN_VALUES_def)
  have a: "\<forall>(k, v) \<in> set [(''A'', PBool True), (''B'', PInt 0)].
             k \<in> {''A'', ''B'', ''C''} \<and> py_in v BOOLEAN_VALUES"
    by (simp add: BOOLEAN_VALUES_def)
  have b: "\<not> (\<forall>(k, v) \<in> set [(''A'', PBool True), (''B'', PInt 2)].
             k \<in> {''A'', ''B'', ''C''} \<and> py_in v BOOLEAN_VALUES)"
    by (simp add: BOOLEAN_VALUES_def)
  from m a b
    valid_keys_succeeds_iff [of "[(''A'', PBool True), (''B'', PInt 0)]" "{''A'', ''B'', ''C''}"]
    valid_keys_succeeds_iff [of "[(''A'', PBool True), (''B'', PInt 2)]" "{''A'', ''B'', ''C''}"]
  show ?thesis by blast
qed

text \<open>
  C7. The pairs are checked in the dict's iteration order and the first offending pair
  decides: if all pairs before \<open>(k, v)\<close> pass both checks, then a key \<open>k\<close> outside the
  symbol set raises \<^verbatim>\<open>ExtraSymbolError\<close>, whatever \<open>v\<close> is (the key is checked before the
  value), with the message that has \<open>k\<close> between double quotes followed by
  \<^verbatim>\<open> is not a symbol in this expression\<close>; and a key in the symbol set with a value outside
  \<^verbatim>\<open>BOOLEAN_VALUES\<close> raises \<^verbatim>\<open>InvalidBooleanValueError\<close>, with the message that has the
  text of the value between double quotes, \<^verbatim>\<open> passed as value for \<close>, \<open>k\<close> between double
  quotes and \<^verbatim>\<open> is not a valid Boolean value\<close>. The text of the value is the one Python's
  \<^verbatim>\<open>str\<close> gives. The pairs after \<open>(k, v)\<close> have no influence.
\<close>

theorem first_offending_pair_decides:
  assumes "\<forall>(k', v') \<in> set pre. k' \<in> R \<and> py_in v' BOOLEAN_VALUES"
  shows "(k \<notin> R \<longrightarrow>
            assert_all_valid_keys (pre @ (k, v) # post) R =
              Inl (ExtraSymbolError
                (CHR 0x22 # k @ CHR 0x22 # '' is not a symbol in this expression'')))
       \<and> (k \<in> R \<and> \<not> py_in v BOOLEAN_VALUES \<longrightarrow>
            shows_value (py_str v) v \<and>
            assert_all_valid_keys (pre @ (k, v) # post) R =
              Inl (InvalidBooleanValueError
                (CHR 0x22 # py_str v @ CHR 0x22 # '' passed as value for '' @
                 CHR 0x22 # k @ CHR 0x22 # '' is not a valid Boolean value'')))"
  using valid_prefix_skipped [OF assms, of "(k, v) # post"] py_str_shows_value [of v]
  by (simp add: quoted_def)

theorem first_offending_pair_decides_witness:
  "''A'' \<in> {''A'', ''B''} \<and> py_in (PInt 1) BOOLEAN_VALUES \<and>
   ''Z'' \<notin> {''A'', ''B''} \<and>
   assert_all_valid_keys ([(''A'', PInt 1)] @ (''Z'', PStr ''x'') # [(''B'', PInt 7)])
     {''A'', ''B''} =
     Inl (ExtraSymbolError
       (CHR 0x22 # ''Z'' @ CHR 0x22 # '' is not a symbol in this expression'')) \<and>
   ''B'' \<in> {''A'', ''B''} \<and> \<not> py_in (PInt 7) BOOLEAN_VALUES \<and>
   assert_all_valid_keys ([(''A'', PInt 1)] @ (''B'', PInt 7) # [(''Z'', PStr ''x'')])
     {''A'', ''B''} =
     Inl (InvalidBooleanValueError
       (CHR 0x22 # ''7'' @ CHR 0x22 # '' passed as value for '' @
        CHR 0x22 # ''B'' @ CHR 0x22 # '' is not a valid Boolean value''))"
proof -
  have p: "\<forall>(k', v') \<in> set [(''A'', PInt 1)]. k' \<in> {''A'', ''B''} \<and> py_in v' BOOLEAN_VALUES"
    by (simp add: BOOLEAN_VALUES_def)
  have z: "''Z'' \<notin> {''A'', ''B''}" by simp
  have b: "''B'' \<in> {''A'', ''B''}" by simp
  have i: "\<not> py_in (PInt 7) BOOLEAN_VALUES" by (simp add: BOOLEAN_VALUES_def)
  have q: "''A'' \<in> {''A'', ''B''} \<and> py_in (PInt 1) BOOLEAN_VALUES"
    by (simp add: BOOLEAN_VALUES_def)
  have t: "py_str (PInt 7) = ''7''" by code_simp
  from z first_offending_pair_decides [OF p, of "''Z''" "PStr ''x''" "[(''B'', PInt 7)]"]
  have x: "assert_all_valid_keys ([(''A'', PInt 1)] @ (''Z'', PStr ''x'') # [(''B'', PInt 7)])
             {''A'', ''B''} =
           Inl (ExtraSymbolError
             (CHR 0x22 # ''Z'' @ CHR 0x22 # '' is not a symbol in this expression''))"
    by blast
  from b i first_offending_pair_decides [OF p, of "''B''" "PInt 7" "[(''Z'', PStr ''x'')]"]
  have "assert_all_valid_keys ([(''A'', PInt 1)] @ (''B'', PInt 7) # [(''Z'', PStr ''x'')])
          {''A'', ''B''} =
        Inl (InvalidBooleanValueError
          (CHR 0x22 # py_str (PInt 7) @ CHR 0x22 # '' passed as value for '' @
           CHR 0x22 # ''B'' @ CHR 0x22 # '' is not a valid Boolean value''))"
    by blast
  then have y: "assert_all_valid_keys ([(''A'', PInt 1)] @ (''B'', PInt 7) # [(''Z'', PStr ''x'')])
          {''A'', ''B''} =
        Inl (InvalidBooleanValueError
          (CHR 0x22 # ''7'' @ CHR 0x22 # '' passed as value for '' @
           CHR 0x22 # ''B'' @ CHR 0x22 # '' is not a valid Boolean value''))"
    by (simp only: t)
  from q z x b i y show ?thesis by blast
qed

text \<open>
  C8. As stated the claim fails: a key in the symbol set with a value that is none of the
  four representations does not make the call raise \<^verbatim>\<open>InvalidBooleanValueError\<close> for that
  pair when an earlier pair offends. In \<^verbatim>\<open>{'B': 1, 'A': 'x'}\<close> checked against \<^verbatim>\<open>{'A'}\<close> the
  pair of \<^verbatim>\<open>'A'\<close> is such a pair, and the call raises \<^verbatim>\<open>ExtraSymbolError\<close> for \<^verbatim>\<open>'B'\<close>.
\<close>

theorem later_invalid_value_not_reported:
  "(''A'', PStr ''x'') \<in> set [(''B'', PInt 1), (''A'', PStr ''x'')] \<and>
   ''A'' \<in> {''A''} \<and>
   PStr ''x'' \<notin> {PInt 1, PInt 0, PBool True, PBool False} \<and>
   assert_all_valid_keys [(''B'', PInt 1), (''A'', PStr ''x'')] {''A''} =
     Inl (ExtraSymbolError
       (CHR 0x22 # ''B'' @ CHR 0x22 # '' is not a symbol in this expression''))"
  by (simp add: quoted_def)

text \<open>
  C8, amended. If the pair at position \<open>i\<close> of the dict's iteration order has a key \<open>k\<close> in
  the symbol set and a value \<open>v\<close> that is none of \<^verbatim>\<open>1\<close>, \<^verbatim>\<open>0\<close>, \<^verbatim>\<open>True\<close>, \<^verbatim>\<open>False\<close>, and
  every pair before it passes both checks, then the call raises
  \<^verbatim>\<open>InvalidBooleanValueError\<close> with the message that has the text of \<open>v\<close> between double
  quotes, \<^verbatim>\<open> passed as value for \<close>, \<open>k\<close> between double quotes and
  \<^verbatim>\<open> is not a valid Boolean value\<close>. The text of \<open>v\<close> is the one Python's \<^verbatim>\<open>str\<close> gives.
\<close>

theorem invalid_value_raises_InvalidBooleanValueError:
  assumes "i < length M" and "M ! i = (k, v)" and "k \<in> R"
    and "v \<notin> {PInt 1, PInt 0, PBool True, PBool False}"
    and "\<forall>j<i. fst (M ! j) \<in> R \<and> py_in (snd (M ! j)) BOOLEAN_VALUES"
  shows "shows_value (py_str v) v \<and>
         assert_all_valid_keys M R =
           Inl (InvalidBooleanValueError
             (CHR 0x22 # py_str v @ CHR 0x22 # '' passed as value for '' @
              CHR 0x22 # k @ CHR 0x22 # '' is not a valid Boolean value''))"
proof -
  have M: "M = take i M @ (k, v) # drop (Suc i) M"
    using id_take_nth_drop [OF assms(1)] assms(2) by simp
  have "\<forall>(k', v') \<in> set (take i M). k' \<in> R \<and> py_in v' BOOLEAN_VALUES"
  proof (clarify)
    fix k' v' assume "(k', v') \<in> set (take i M)"
    then obtain j where "j < i" "j < length M" "M ! j = (k', v')"
      by (auto simp: in_set_conv_nth)
    with assms(5) show "k' \<in> R \<and> py_in v' BOOLEAN_VALUES" by fastforce
  qed
  then have "assert_all_valid_keys (take i M @ (k, v) # drop (Suc i) M) R =
               assert_all_valid_keys ((k, v) # drop (Suc i) M) R"
    by (rule valid_prefix_skipped)
  moreover have "\<not> py_in v BOOLEAN_VALUES"
    using assms(4) by (simp add: BOOLEAN_VALUES_members)
  ultimately have "assert_all_valid_keys M R =
           Inl (InvalidBooleanValueError
             (CHR 0x22 # py_str v @ CHR 0x22 # '' passed as value for '' @
              CHR 0x22 # k @ CHR 0x22 # '' is not a valid Boolean value''))"
    using M assms(3) by (simp add: quoted_def)
  with py_str_shows_value [of v] show ?thesis by (rule conjI)
qed

theorem invalid_value_raises_InvalidBooleanValueError_witness:
  "(1::nat) < length [(''A'', PInt 1), (''B'', PStr ''brian'')] \<and>
   [(''A'', PInt 1), (''B'', PStr ''brian'')] ! 1 = (''B'', PStr ''brian'') \<and>
   ''B'' \<in> {''A'', ''B''} \<and>
   PStr ''brian'' \<notin> {PInt 1, PInt 0, PBool True, PBool False} \<and>
   fst ([(''A'', PInt 1), (''B'', PStr ''brian'')] ! 0) \<in> {''A'', ''B''} \<and>
   py_in (snd ([(''A'', PInt 1), (''B'', PStr ''brian'')] ! 0)) BOOLEAN_VALUES \<and>
   assert_all_valid_keys [(''A'', PInt 1), (''B'', PStr ''brian'')] {''A'', ''B''} =
     Inl (InvalidBooleanValueError
       (CHR 0x22 # ''brian'' @ CHR 0x22 # '' passed as value for '' @
        CHR 0x22 # ''B'' @ CHR 0x22 # '' is not a valid Boolean value''))"
proof -
  have l: "(1::nat) < length [(''A'', PInt 1), (''B'', PStr ''brian'')]" by simp
  have n: "[(''A'', PInt 1), (''B'', PStr ''brian'')] ! 1 = (''B'', PStr ''brian'')" by simp
  have k: "''B'' \<in> {''A'', ''B''}" by simp
  have v: "PStr ''brian'' \<notin> {PInt 1, PInt 0, PBool True, PBool False}" by simp
  have p: "\<forall>j<1. fst ([(''A'', PInt 1), (''B'', PStr ''brian'')] ! j) \<in> {''A'', ''B''} \<and>
             py_in (snd ([(''A'', PInt 1), (''B'', PStr ''brian'')] ! j)) BOOLEAN_VALUES"
    by (simp add: BOOLEAN_VALUES_def)
  from invalid_value_raises_InvalidBooleanValueError [OF l n k v p]
  have "assert_all_valid_keys [(''A'', PInt 1), (''B'', PStr ''brian'')] {''A'', ''B''} =
     Inl (InvalidBooleanValueError
       (CHR 0x22 # ''brian'' @ CHR 0x22 # '' passed as value for '' @
        CHR 0x22 # ''B'' @ CHR 0x22 # '' is not a valid Boolean value''))"
    by (simp only: py_str.simps)
  moreover
  have "fst ([(''A'', PInt 1), (''B'', PStr ''brian'')] ! 0) \<in> {''A'', ''B''} \<and>
        py_in (snd ([(''A'', PInt 1), (''B'', PStr ''brian'')] ! 0)) BOOLEAN_VALUES"
    by (simp add: BOOLEAN_VALUES_def)
  ultimately show ?thesis using l n k v by blast
qed

subsection \<open>Both functions\<close>

text \<open>
  The result of a call on addresses is the result of the function on the contents.
\<close>

lemma store_result:
  assumes "a < length h" and "r < length h" and "h ! r = PySet R"
  shows "map_option fst (assert_iterable_contains_all_expr_symbols_store set_iter h a r) =
           Some (assert_iterable_contains_all_expr_symbols set_iter
                   (fst (iterate set_iter (h ! a))) R)"
  using assms iterate_keeps_set [OF assms(2,3,1), of set_iter]
  by (simp add: assert_iterable_contains_all_expr_symbols_store_def Let_def split_beta)

text \<open>
  C9. A call of either function, whether it returns or raises, leaves the reference set
  as it was: the object at the address passed for it is the same set afterwards. For
  \<^verbatim>\<open>assert_iterable_contains_all_expr_symbols\<close> this holds for every iterable passed with it,
  also when the iterable is the reference set itself.
\<close>

theorem reference_set_unchanged:
  assumes "r < length h" and "h ! r = PySet R"
  shows "(a < length h \<longrightarrow>
            (case assert_iterable_contains_all_expr_symbols_store set_iter h a r of
               None \<Rightarrow> False
             | Some (res, h') \<Rightarrow> h' ! r = PySet R))
       \<and> (d < length h \<and> h ! d = PyDict M \<longrightarrow>
            (case assert_all_valid_keys_store h d r of
               None \<Rightarrow> False
             | Some (res, h') \<Rightarrow> res = assert_all_valid_keys M R \<and> h' ! r = PySet R))"
proof (intro conjI impI)
  assume a: "a < length h"
  from iterate_keeps_set [OF assms a, of set_iter] a assms
  show "case assert_iterable_contains_all_expr_symbols_store set_iter h a r of
          None \<Rightarrow> False | Some (res, h') \<Rightarrow> h' ! r = PySet R"
    by (simp add: assert_iterable_contains_all_expr_symbols_store_def Let_def split_beta)
next
  assume "d < length h \<and> h ! d = PyDict M"
  with assms
  show "case assert_all_valid_keys_store h d r of
          None \<Rightarrow> False
        | Some (res, h') \<Rightarrow> res = assert_all_valid_keys M R \<and> h' ! r = PySet R"
    by (simp add: assert_all_valid_keys_store_def)
qed

theorem reference_set_unchanged_witness:
  "(1::nat) < length [PyIter [''A'', ''C''], PySet {''A'', ''B''}, PyDict [(''Z'', PInt 1)]] \<and>
   [PyIter [''A'', ''C''], PySet {''A'', ''B''}, PyDict [(''Z'', PInt 1)]] ! 1 =
     PySet {''A'', ''B''} \<and>
   (0::nat) < length [PyIter [''A'', ''C''], PySet {''A'', ''B''}, PyDict [(''Z'', PInt 1)]] \<and>
   (case assert_iterable_contains_all_expr_symbols_store sorted_list_of_set
           [PyIter [''A'', ''C''], PySet {''A'', ''B''}, PyDict [(''Z'', PInt 1)]] 0 1 of
      None \<Rightarrow> False
    | Some (res, h') \<Rightarrow> h' ! 1 = PySet {''A'', ''B''}) \<and>
   (2::nat) < length [PyIter [''A'', ''C''], PySet {''A'', ''B''}, PyDict [(''Z'', PInt 1)]] \<and>
   [PyIter [''A'', ''C''], PySet {''A'', ''B''}, PyDict [(''Z'', PInt 1)]] ! 2 =
     PyDict [(''Z'', PInt 1)] \<and>
   (case assert_all_valid_keys_store
           [PyIter [''A'', ''C''], PySet {''A'', ''B''}, PyDict [(''Z'', PInt 1)]] 2 1 of
      None \<Rightarrow> False
    | Some (res, h') \<Rightarrow>
        res = assert_all_valid_keys [(''Z'', PInt 1)] {''A'', ''B''} \<and>
        h' ! 1 = PySet {''A'', ''B''})"
proof -
  let ?h = "[PyIter [''A'', ''C''], PySet {''A'', ''B''}, PyDict [(''Z'', PInt 1)]]"
  have r: "(1::nat) < length ?h" by simp
  have s: "?h ! 1 = PySet {''A'', ''B''}" by simp
  have a: "(0::nat) < length ?h" by simp
  have d: "(2::nat) < length ?h" by simp
  have m: "?h ! 2 = PyDict [(''Z'', PInt 1)]" by simp
  from reference_set_unchanged [OF r s, of 0 sorted_list_of_set 2 "[(''Z'', PInt 1)]"] r s a d m
  show ?thesis by blast
qed

subsection \<open>Empty inputs\<close>

text \<open>
  C10. With an empty dict \<^verbatim>\<open>assert_all_valid_keys\<close> returns normally whatever the symbol set
  is, also a non-empty one; with no items and an empty reference set
  \<^verbatim>\<open>assert_iterable_contains_all_expr_symbols\<close> returns normally.
\<close>

theorem empty_inputs_succeed:
  "assert_all_valid_keys [] symbol_set = Inr () \<and>
   assert_iterable_contains_all_expr_symbols set_iter [] {} = Inr ()"
  by (simp add: assert_iterable_contains_all_expr_symbols_def)

end
